theory Spec2Isabelle
  imports Complex_Main
begin

section \<open>Python values\<close>

text \<open>
  The payload of a broker message is what \<^verbatim>\<open>json.loads\<close> returns: \<^verbatim>\<open>None\<close>, a
  \<^verbatim>\<open>bool\<close>, an unbounded \<^verbatim>\<open>int\<close>, a \<^verbatim>\<open>float\<close>, a \<^verbatim>\<open>str\<close>, a \<^verbatim>\<open>list\<close> or a
  \<^verbatim>\<open>dict\<close> with string keys. A float is the exact real value of the double, or one of the
  three special values (\<^verbatim>\<open>json.loads\<close> accepts \<^verbatim>\<open>NaN\<close>, \<^verbatim>\<open>Infinity\<close> and
  \<^verbatim>\<open>-Infinity\<close>). A dict is an association list in insertion order, read with
  \<open>map_of\<close> and written with \<open>dict_set\<close>. A string is its list of code points.
\<close>

datatype pyfloat = Fin real | PosInf | NegInf | NaN

datatype pyval =
    VNone
  | VBool bool
  | VInt int
  | VFloat pyfloat
  | VStr string
  | VList "pyval list"
  | VDict "(string \<times> pyval) list"

type_synonym pydict = "(string \<times> pyval) list"

datatype pyexc =
    TypeError
  | ValueError
  | OverflowError
  | AttributeError
  | KeyError
  | IndexError
  | JSONDecodeError
  | ConnectionError
  | OtherException

text \<open>\<^verbatim>\<open>a <= b\<close> on floats: every comparison with \<^verbatim>\<open>nan\<close> is false.\<close>

fun float_le :: "pyfloat \<Rightarrow> pyfloat \<Rightarrow> bool" where
  "float_le NaN _ = False"
| "float_le _ NaN = False"
| "float_le NegInf _ = True"
| "float_le _ PosInf = True"
| "float_le (Fin a) (Fin b) = (a \<le> b)"
| "float_le _ _ = False"

text \<open>
  \<^verbatim>\<open>lo <= v <= hi\<close> with \<^verbatim>\<open>int\<close> bounds and a float \<^verbatim>\<open>v\<close>: Python compares an int
  and a float by their exact values.
\<close>

definition in_int_range :: "int \<times> int \<Rightarrow> pyfloat \<Rightarrow> bool" where
  "in_int_range r v = (float_le (Fin (of_int (fst r))) v \<and> float_le v (Fin (of_int (snd r))))"

text \<open>
  The two library functions the validator calls on strings are parameters of the model:
  \<^verbatim>\<open>float(s)\<close> (\<open>None\<close> is \<^verbatim>\<open>ValueError\<close>) and whether
  \<^verbatim>\<open>datetime.strptime(s, "%Y-%m-%dT%H:%M:%S.%f")\<close> returns (\<open>False\<close> is \<^verbatim>\<open>ValueError\<close>).
\<close>

record pylib =
  float_of_str :: "string \<Rightarrow> pyfloat option"
  strptime_ok :: "string \<Rightarrow> bool"

text \<open>
  \<^verbatim>\<open>float(x)\<close>. An int converts to the nearest double, and raises \<^verbatim>\<open>OverflowError\<close> from
  \<open>2^1024 - 2^970\<close> on. The model keeps the int's exact value: rounding is monotone and
  every bound the result is compared with is an integer of the catalog, itself a double, so
  no comparison below changes.
\<close>

definition py_float :: "pylib \<Rightarrow> pyval \<Rightarrow> pyexc + pyfloat" where
  "py_float lib x =
     (case x of
        VInt i \<Rightarrow> (if \<bar>i\<bar> \<ge> 2 ^ 1024 - 2 ^ 970 then Inl OverflowError else Inr (Fin (of_int i)))
      | VFloat f \<Rightarrow> Inr f
      | VBool b \<Rightarrow> Inr (Fin (if b then 1 else 0))
      | VStr s \<Rightarrow> (case float_of_str lib s of None \<Rightarrow> Inl ValueError | Some f \<Rightarrow> Inr f)
      | _ \<Rightarrow> Inl TypeError)"

text \<open>\<^verbatim>\<open>d[k] = v\<close>: an existing key keeps its place, a new key goes last.\<close>

fun dict_set :: "string \<Rightarrow> pyval \<Rightarrow> pydict \<Rightarrow> pydict" where
  "dict_set k v [] = [(k, v)]"
| "dict_set k v (p # ps) = (if fst p = k then (k, v) # ps else p # dict_set k v ps)"

text \<open>\<^verbatim>\<open>needle in s\<close> on two strings: the substring test.\<close>

fun is_substring :: "string \<Rightarrow> string \<Rightarrow> bool" where
  "is_substring xs [] = (xs = [])"
| "is_substring xs (y # ys) = (take (length xs) (y # ys) = xs \<or> is_substring xs ys)"

section \<open>The sensor catalog (sensor_config.py)\<close>

record sensor_type_def =
  units :: string
  valid_range :: "int \<times> int"
  thresholds :: "(string \<times> int \<times> int) list"

text \<open>
  \<^verbatim>\<open>SENSOR_TYPES\<close>, in definition order. \<open>CHR 0xB0\<close> is the degree sign and \<open>CHR 0xEA\<close>
  the e with circumflex of the source's unit strings. The \<^verbatim>\<open>alert_levels\<close> and
  \<^verbatim>\<open>capabilities\<close> entries are read by no function of the pipeline and are left out.
\<close>

definition SENSOR_TYPES :: "(string \<times> sensor_type_def) list" where
  "SENSOR_TYPES =
    [(''air_quality'', \<lparr>units = ''AQI'', valid_range = (0, 500), thresholds =
        [(''good'', 0, 50), (''moderate'', 51, 100), (''unhealthy_sensitive'', 101, 150),
         (''unhealthy'', 151, 200), (''very_unhealthy'', 201, 300), (''hazardous'', 301, 500)]\<rparr>),
     (''temperature'', \<lparr>units = [CHR 0xB0, CHR ''C''], valid_range = (-50, 100), thresholds =
        [(''very_cold'', -50, 0), (''cold'', 0, 15), (''moderate'', 15, 25),
         (''warm'', 25, 35), (''hot'', 35, 100)]\<rparr>),
     (''humidity'', \<lparr>units = ''%'', valid_range = (0, 100), thresholds =
        [(''very_dry'', 0, 20), (''dry'', 20, 40), (''moderate'', 40, 60),
         (''humid'', 60, 80), (''very_humid'', 80, 100)]\<rparr>),
     (''noise'', \<lparr>units = ''dB'', valid_range = (0, 200), thresholds =
        [(''quiet'', 0, 30), (''moderate'', 30, 60), (''loud'', 60, 90),
         (''very_loud'', 90, 120), (''dangerous'', 120, 200)]\<rparr>),
     (''traffic'', \<lparr>units = ''%'', valid_range = (0, 100), thresholds =
        [(''light'', 0, 20), (''moderate'', 20, 40), (''heavy'', 40, 70),
         (''congested'', 70, 90), (''gridlock'', 90, 100)]\<rparr>),
     (''flood'', \<lparr>units = ''mm'', valid_range = (0, 1000), thresholds =
        [(''normal'', 0, 30), (''attention'', 31, 50), (''alert'', 51, 100),
         (''danger'', 101, 200), (''critical'', 201, 1000)]\<rparr>),
     (''accidents'', \<lparr>units = ''ocorr'' @ [CHR 0xEA] @ ''ncias/dia'', valid_range = (0, 100),
        thresholds =
        [(''baixo'', 0, 5), (''moderado'', 6, 15), (''alto'', 16, 30), (''critico'', 31, 100)]\<rparr>),
     (''crime_rate'', \<lparr>units = ''ocorr'' @ [CHR 0xEA] @ ''ncias/dia'', valid_range = (0, 1000),
        thresholds =
        [(''baixo'', 0, 10), (''moderado'', 11, 30), (''alto'', 31, 50), (''critico'', 51, 1000)]\<rparr>),
     (''energy_consumption'', \<lparr>units = ''MW'', valid_range = (0, 1000), thresholds =
        [(''baixo'', 0, 100), (''normal'', 101, 300), (''alto'', 301, 600),
         (''critico'', 601, 1000)]\<rparr>),
     (''waste_collection'', \<lparr>units = ''ton/dia'', valid_range = (0, 1000), thresholds =
        [(''baixo'', 0, 50), (''normal'', 51, 200), (''alto'', 201, 500),
         (''critico'', 501, 1000)]\<rparr>),
     (''smart_camera'', \<lparr>units = ''status'', valid_range = (0, 1), thresholds =
        [(''offline'', 0, 0), (''online'', 1, 1)]\<rparr>),
     (''drone'', \<lparr>units = ''status'', valid_range = (0, 1), thresholds =
        [(''grounded'', 0, 0), (''patrolling'', 1, 1)]\<rparr>)]"

text \<open>
  \<^verbatim>\<open>ZONES\<close>: each zone with its \<^verbatim>\<open>sensor_types\<close> list. The centre coordinates of a zone
  are read by no function of the pipeline and are left out.
\<close>

definition ZONES :: "(string \<times> string list) list" where
  "ZONES =
    [(''Centro'', [''air_quality'', ''traffic'', ''noise'', ''temperature'', ''humidity'',
                   ''flood'', ''smart_camera'', ''drone'']),
     (''Zona Norte'', [''air_quality'', ''traffic'', ''temperature'', ''humidity'', ''flood'',
                       ''smart_camera'', ''drone'']),
     (''Zona Sul'', [''air_quality'', ''traffic'', ''temperature'', ''humidity'', ''flood'',
                     ''smart_camera'']),
     (''Zona Leste'', [''air_quality'', ''traffic'', ''noise'', ''temperature'', ''humidity'',
                       ''flood'', ''smart_camera'']),
     (''Zona Oeste'', [''air_quality'', ''traffic'', ''temperature'', ''humidity'', ''flood'',
                       ''smart_camera''])]"

text \<open>\<^verbatim>\<open>VALIDATION_RULES\<close>. The coordinate bounds are the doubles the four literals denote.\<close>

definition required_fields :: "string list" where
  "required_fields = [''value'', ''unit'', ''timestamp'', ''sensor_id'', ''location'']"

definition location_fields :: "string list" where
  "location_fields = [''zone'', ''coordinates'']"

definition lat_range :: "real \<times> real" where
  "lat_range = (- (5854679515581645 / 2 ^ 50), - (2871044762448691 / 2 ^ 49))"

definition lon_range :: "real \<times> real" where
  "lon_range = (- (5263582064489267 / 2 ^ 47), - (2624754157826867 / 2 ^ 46))"

section \<open>The validator and the enricher (sensor_processor.py)\<close>

text \<open>
  \<^verbatim>\<open>validate_sensor_data\<close> returns \<^verbatim>\<open>(False, message)\<close> or \<^verbatim>\<open>(True, None)\<close>. A message
  is modelled by the branch that builds it, with the values it interpolates:
  \<^item> \<open>MissingField f\<close>: a required field \<open>f\<close> is absent;
  \<^item> \<open>InvalidSensorType t\<close>: the sensor type \<open>t\<close> is not a key of the catalog;
  \<^item> \<open>OutOfRange v r\<close>: the value \<open>v\<close> is outside the valid range \<open>r\<close>;
  \<^item> \<open>InvalidValue\<close>: \<^verbatim>\<open>float\<close> refused the value;
  \<^item> \<open>InvalidTimestamp\<close>: \<^verbatim>\<open>strptime\<close> refused the timestamp;
  \<^item> \<open>InvalidLocation\<close>: the location lacks a location field;
  \<^item> \<open>InvalidCoordinates\<close>: a coordinate is not a number;
  \<^item> \<open>CoordinatesOutOfBounds\<close>: a coordinate is outside the city's bounds;
  \<^item> \<open>InvalidZone z\<close>: the zone \<open>z\<close> is not a key of \<^verbatim>\<open>ZONES\<close>;
  \<^item> \<open>ValidationException e\<close>: the message of the outer \<^verbatim>\<open>except Exception\<close>.
\<close>

datatype rejection =
    MissingField string
  | InvalidSensorType pyval
  | OutOfRange pyfloat "int \<times> int"
  | InvalidValue
  | InvalidTimestamp
  | InvalidLocation
  | InvalidCoordinates
  | CoordinatesOutOfBounds
  | InvalidZone pyval
  | ValidationException pyexc

text \<open>\<^verbatim>\<open>d.get(k)\<close> and \<^verbatim>\<open>d.get(k, {})\<close>.\<close>

definition dict_get :: "pydict \<Rightarrow> string \<Rightarrow> pyval" where
  "dict_get d k = (case map_of d k of None \<Rightarrow> VNone | Some v \<Rightarrow> v)"

definition dict_get_or_empty :: "pydict \<Rightarrow> string \<Rightarrow> pyval" where
  "dict_get_or_empty d k = (case map_of d k of None \<Rightarrow> VDict [] | Some v \<Rightarrow> v)"

text \<open>
  \<^verbatim>\<open>field in x\<close> for a string \<^verbatim>\<open>field\<close>: key membership in a dict, element membership in a
  list, the substring test in a string, \<^verbatim>\<open>TypeError\<close> otherwise.
\<close>

definition str_in :: "string \<Rightarrow> pyval \<Rightarrow> pyexc + bool" where
  "str_in f x =
     (case x of
        VDict d \<Rightarrow> Inr (map_of d f \<noteq> None)
      | VList xs \<Rightarrow> Inr (VStr f \<in> set xs)
      | VStr s \<Rightarrow> Inr (is_substring f s)
      | _ \<Rightarrow> Inl TypeError)"

text \<open>\<^verbatim>\<open>isinstance(x, (int, float))\<close>, with the value compared afterwards; a bool is an int.\<close>

definition as_number :: "pyval \<Rightarrow> pyfloat option" where
  "as_number x =
     (case x of
        VInt i \<Rightarrow> Some (Fin (of_int i))
      | VFloat f \<Rightarrow> Some f
      | VBool b \<Rightarrow> Some (Fin (if b then 1 else 0))
      | _ \<Rightarrow> None)"

definition in_real_range :: "real \<times> real \<Rightarrow> pyfloat \<Rightarrow> bool" where
  "in_real_range r v = (float_le (Fin (fst r)) v \<and> float_le v (Fin (snd r)))"

text \<open>
  The blocks of \<^verbatim>\<open>validate_sensor_data\<close>, in the order of the source. Each returns the
  rejection it ends the function with, or \<open>None\<close> when the function goes on to the next
  block. An exception no inner handler takes ends in the outer handler.
\<close>

definition check_required_fields :: "pydict \<Rightarrow> rejection option" where
  "check_required_fields data =
     map_option MissingField (find (\<lambda>f. map_of data f = None) required_fields)"

definition check_sensor_type :: "pydict \<Rightarrow> rejection option" where
  "check_sensor_type data =
     (let sensor_type = dict_get data ''sensor_type'' in
      case sensor_type of
        VStr t \<Rightarrow> (if map_of SENSOR_TYPES t = None then Some (InvalidSensorType sensor_type)
                   else None)
      | VList _ \<Rightarrow> Some (ValidationException TypeError)
      | VDict _ \<Rightarrow> Some (ValidationException TypeError)
      | _ \<Rightarrow> Some (InvalidSensorType sensor_type))"

definition check_value :: "pylib \<Rightarrow> pydict \<Rightarrow> rejection option" where
  "check_value lib data =
     (case map_of data ''value'' of
        None \<Rightarrow> Some (ValidationException KeyError)
      | Some x \<Rightarrow>
          (case py_float lib x of
             Inl ValueError \<Rightarrow> Some InvalidValue
           | Inl TypeError \<Rightarrow> Some InvalidValue
           | Inl e \<Rightarrow> Some (ValidationException e)
           | Inr v \<Rightarrow>
               (case dict_get data ''sensor_type'' of
                  VStr t \<Rightarrow>
                    (case map_of SENSOR_TYPES t of
                       None \<Rightarrow> Some (ValidationException KeyError)
                     | Some d \<Rightarrow>
                         (if \<not> in_int_range (valid_range d) v
                          then Some (OutOfRange v (valid_range d)) else None))
                | _ \<Rightarrow> Some (ValidationException KeyError))))"

definition check_timestamp :: "pylib \<Rightarrow> pydict \<Rightarrow> rejection option" where
  "check_timestamp lib data =
     (case map_of data ''timestamp'' of
        None \<Rightarrow> Some (ValidationException KeyError)
      | Some (VStr s) \<Rightarrow> (if strptime_ok lib s then None else Some InvalidTimestamp)
      | Some _ \<Rightarrow> Some (ValidationException TypeError))"

fun all_fields_in :: "string list \<Rightarrow> pyval \<Rightarrow> pyexc + bool" where
  "all_fields_in [] x = Inr True"
| "all_fields_in (f # fs) x =
     (case str_in f x of
        Inl e \<Rightarrow> Inl e
      | Inr False \<Rightarrow> Inr False
      | Inr True \<Rightarrow> all_fields_in fs x)"

definition check_location :: "pydict \<Rightarrow> rejection option" where
  "check_location data =
     (case all_fields_in location_fields (dict_get_or_empty data ''location'') of
        Inl e \<Rightarrow> Some (ValidationException e)
      | Inr False \<Rightarrow> Some InvalidLocation
      | Inr True \<Rightarrow> None)"

definition check_coordinates :: "pydict \<Rightarrow> rejection option" where
  "check_coordinates data =
     (case dict_get_or_empty data ''location'' of
        VDict location \<Rightarrow>
          (case dict_get_or_empty location ''coordinates'' of
             VDict coords \<Rightarrow>
               (case (as_number (dict_get coords ''lat''), as_number (dict_get coords ''lon'')) of
                  (Some lat, Some lon) \<Rightarrow>
                    (if \<not> (in_real_range lat_range lat \<and> in_real_range lon_range lon)
                     then Some CoordinatesOutOfBounds else None)
                | _ \<Rightarrow> Some InvalidCoordinates)
           | _ \<Rightarrow> Some (ValidationException AttributeError))
      | _ \<Rightarrow> Some (ValidationException AttributeError))"

definition check_zone :: "pydict \<Rightarrow> rejection option" where
  "check_zone data =
     (case dict_get_or_empty data ''location'' of
        VDict location \<Rightarrow>
          (case map_of location ''zone'' of
             None \<Rightarrow> Some (ValidationException KeyError)
           | Some (VStr z) \<Rightarrow> (if map_of ZONES z = None then Some (InvalidZone (VStr z)) else None)
           | Some (VList _) \<Rightarrow> Some (ValidationException TypeError)
           | Some (VDict _) \<Rightarrow> Some (ValidationException TypeError)
           | Some z \<Rightarrow> Some (InvalidZone z))
      | _ \<Rightarrow> Some (ValidationException TypeError))"

fun first_rejection :: "rejection option list \<Rightarrow> bool \<times> rejection option" where
  "first_rejection [] = (True, None)"
| "first_rejection (None # cs) = first_rejection cs"
| "first_rejection (Some r # cs) = (False, Some r)"

definition validate_sensor_data :: "pylib \<Rightarrow> pydict \<Rightarrow> bool \<times> rejection option" where
  "validate_sensor_data lib data =
     first_rejection
       [check_required_fields data, check_sensor_type data, check_value lib data,
        check_timestamp lib data, check_location data, check_coordinates data,
        check_zone data]"

text \<open>
  \<^verbatim>\<open>next((cat for cat, (min_val, max_val) in thresholds.items() if min_val <= value <= max_val),
  "unknown")\<close>: the generator filters the bands in dict order and \<^verbatim>\<open>next\<close> takes its first
  element, or the default.
\<close>

definition category_of :: "(string \<times> int \<times> int) list \<Rightarrow> pyfloat \<Rightarrow> string" where
  "category_of ths v =
     (case filter (\<lambda>(cat, min_val, max_val). in_int_range (min_val, max_val) v) ths of
        [] \<Rightarrow> ''unknown''
      | (cat, _) # _ \<Rightarrow> cat)"

text \<open>
  \<^verbatim>\<open>process_sensor_data\<close>; \<open>now\<close> is \<^verbatim>\<open>datetime.now().isoformat()\<close>. Any exception of
  the body (a missing key, a value \<^verbatim>\<open>float\<close> refuses, a sensor type that is not a key of
  the catalog) ends in the handler, which returns \<^verbatim>\<open>data\<close> as it came.
\<close>

definition process_sensor_data :: "pylib \<Rightarrow> string \<Rightarrow> pydict \<Rightarrow> pydict" where
  "process_sensor_data lib now data =
     (case map_of data ''sensor_type'' of
        Some (VStr sensor_type) \<Rightarrow>
          (case map_of data ''value'' of
             None \<Rightarrow> data
           | Some x \<Rightarrow>
               (case py_float lib x of
                  Inl _ \<Rightarrow> data
                | Inr v \<Rightarrow>
                    (case map_of SENSOR_TYPES sensor_type of
                       None \<Rightarrow> data
                     | Some d \<Rightarrow>
                         dict_set ''unit'' (VStr (units d))
                           (dict_set ''trend'' (VStr ''stable'')
                             (dict_set ''status_category'' (VStr (category_of (thresholds d) v))
                               (dict_set ''processed_timestamp'' (VStr now) data))))))
      | _ \<Rightarrow> data)"

section \<open>The manager (iot_manager.py)\<close>

text \<open>
  A callback is any callable. It acts on a world \<open>'w\<close> outside the manager and either
  returns or raises an \<^verbatim>\<open>Exception\<close>: the flag of its result is \<open>True\<close> when it raised.
  What a callback does to the manager itself, or to the reading it is handed, is outside the
  model.
\<close>

type_synonym 'w callback = "pydict \<Rightarrow> 'w \<Rightarrow> bool \<times> 'w"

datatype 'w pyobj = Callable "'w callback" | NotCallable

record 'w iot_manager =
  sensor_data :: "string \<rightharpoonup> (string \<rightharpoonup> pydict)"
  callbacks :: "string \<rightharpoonup> 'w callback list"
  data_buffer :: "string \<rightharpoonup> pydict list"
  buffer_size :: int
  connected :: bool
  reconnect_delay :: int
  max_reconnect_attempts :: int

text \<open>\<^verbatim>\<open>__init__\<close>.\<close>

definition init :: "'w iot_manager" where
  "init =
     \<lparr>sensor_data = Map.empty,
      callbacks = Map.empty,
      data_buffer = [''temperature'' \<mapsto> [], ''humidity'' \<mapsto> [], ''air_quality'' \<mapsto> [],
                     ''noise'' \<mapsto> [], ''traffic'' \<mapsto> []],
      buffer_size = 1000,
      connected = False,
      reconnect_delay = 5,
      max_reconnect_attempts = 5\<rparr>"

text \<open>What the manager logs, by the call that logs it.\<close>

datatype log_event =
    WarnMissingFields
  | WarnLocationFormat
  | WarnCoordinates
  | WarnValueOutOfRange string pyfloat "int \<times> int"
  | ErrorValidation pyexc
  | WarnInvalidData string "rejection option"
  | ErrorCallback string
  | DebugProcessed string string
  | ErrorJsonDecode
  | ErrorMessage pyexc

text \<open>The \<^verbatim>\<open>ranges\<close> table local to \<^verbatim>\<open>IoTManager.validate_sensor_data\<close>.\<close>

definition ranges :: "(string \<times> int \<times> int) list" where
  "ranges =
     [(''temperature'', (-50, 100)), (''humidity'', (0, 100)), (''air_quality'', (0, 500)),
      (''noise'', (0, 200)), (''traffic'', (0, 100))]"

text \<open>
  \<^verbatim>\<open>IoTManager.validate_sensor_data(data, sensor_type)\<close>, with the event it logs before each
  \<^verbatim>\<open>return False\<close>. Subscripting a list or a string with \<^verbatim>\<open>'location'\<close> raises
  \<^verbatim>\<open>TypeError\<close>, which the handler of the function logs.
\<close>

definition manager_validate_sensor_data ::
  "pylib \<Rightarrow> pyval \<Rightarrow> string \<Rightarrow> bool \<times> log_event list" where
  "manager_validate_sensor_data lib data sensor_type =
     (case all_fields_in [''value'', ''unit'', ''location'', ''timestamp''] data of
        Inl e \<Rightarrow> (False, [ErrorValidation e])
      | Inr False \<Rightarrow> (False, [WarnMissingFields])
      | Inr True \<Rightarrow>
          (case data of
             VDict d \<Rightarrow>
               (case dict_get d ''location'' of
                  VDict location \<Rightarrow>
                    (if map_of location ''zone'' = None \<or> map_of location ''coordinates'' = None
                     then (False, [WarnLocationFormat])
                     else
                       (case dict_get location ''coordinates'' of
                          VDict coords \<Rightarrow>
                            (if map_of coords ''lat'' = None \<or> map_of coords ''lon'' = None
                             then (False, [WarnCoordinates])
                             else
                               (case map_of ranges sensor_type of
                                  None \<Rightarrow> (True, [])
                                | Some r \<Rightarrow>
                                    (case py_float lib (dict_get d ''value'') of
                                       Inl e \<Rightarrow> (False, [ErrorValidation e])
                                     | Inr v \<Rightarrow>
                                         (if \<not> in_int_range r v
                                          then (False, [WarnValueOutOfRange sensor_type v r])
                                          else (True, [])))))
                        | _ \<Rightarrow> (False, [WarnCoordinates])))
                | _ \<Rightarrow> (False, [WarnLocationFormat]))
           | _ \<Rightarrow> (False, [ErrorValidation TypeError])))"

text \<open>\<^verbatim>\<open>topic.split('/')\<close>.\<close>

fun split_topic :: "string \<Rightarrow> string list" where
  "split_topic [] = [[]]"
| "split_topic (c # cs) =
     (if c = CHR ''/'' then [] # split_topic cs
      else (case split_topic cs of p # ps \<Rightarrow> (c # p) # ps | [] \<Rightarrow> [[c]]))"

text \<open>A broker message: its topic and what \<^verbatim>\<open>json.loads(msg.payload.decode())\<close> gives.\<close>

record message =
  topic :: string
  payload :: "pyexc + pyval"

text \<open>
  Lines 193 to 196 of \<^verbatim>\<open>on_message\<close>: append, then drop the head once when the list is
  longer than \<^verbatim>\<open>buffer_size\<close>.
\<close>

definition buffer_append :: "int \<Rightarrow> pydict list \<Rightarrow> pydict \<Rightarrow> pydict list" where
  "buffer_append cap buf x =
     (let b = buf @ [x] in if int (length b) > cap then tl b else b)"

text \<open>
  The callback loop of \<^verbatim>\<open>on_message\<close>: each callback runs inside its own
  \<^verbatim>\<open>try\<close>, whose handler logs the failure and lets the loop go on.
\<close>

fun run_callbacks ::
  "string \<Rightarrow> pydict \<Rightarrow> 'w callback list \<Rightarrow> 'w \<Rightarrow> 'w \<times> log_event list" where
  "run_callbacks sensor_type processed [] w = (w, [])"
| "run_callbacks sensor_type processed (cb # cbs) w =
     (case cb processed w of
        (raised, w1) \<Rightarrow>
          (case run_callbacks sensor_type processed cbs w1 of
             (w2, lg) \<Rightarrow> (w2, (if raised then [ErrorCallback sensor_type] else []) @ lg)))"

text \<open>
  \<^verbatim>\<open>on_message\<close>. It returns the manager, the world of the callbacks and the events
  logged. \<open>now\<close> is the clock reading \<^verbatim>\<open>process_sensor_data\<close> takes.
\<close>

definition on_message ::
  "pylib \<Rightarrow> string \<Rightarrow> 'w iot_manager \<Rightarrow> 'w \<Rightarrow> message
     \<Rightarrow> 'w iot_manager \<times> 'w \<times> log_event list" where
  "on_message lib now s w msg =
     (case payload msg of
        Inl JSONDecodeError \<Rightarrow> (s, w, [ErrorJsonDecode])
      | Inl e \<Rightarrow> (s, w, [ErrorMessage e])
      | Inr pl \<Rightarrow>
          (let topic_parts = split_topic (topic msg);
               sensor_type = last topic_parts
           in if length topic_parts < 2 then (s, w, [ErrorMessage IndexError])
              else
                (let sensor_id = topic_parts ! (length topic_parts - 2) in
                 case manager_validate_sensor_data lib pl sensor_type of
                   (False, lg) \<Rightarrow> (s, w, lg)
                 | (True, lg) \<Rightarrow>
                     (case pl of
                        VDict d \<Rightarrow>
                          (case validate_sensor_data lib d of
                             (False, error_msg) \<Rightarrow>
                               (s, w, lg @ [WarnInvalidData sensor_id error_msg])
                           | (True, _) \<Rightarrow>
                               (let processed_data = process_sensor_data lib now d;
                                    s1 = (case data_buffer s sensor_type of
                                            None \<Rightarrow> s
                                          | Some buf \<Rightarrow>
                                              s\<lparr>data_buffer := (data_buffer s)(sensor_type \<mapsto>
                                                   buffer_append (buffer_size s) buf
                                                     processed_data)\<rparr>);
                                    latest = (case sensor_data s1 sensor_type of
                                                None \<Rightarrow> Map.empty
                                              | Some m \<Rightarrow> m);
                                    s2 = s1\<lparr>sensor_data := (sensor_data s1)(sensor_type \<mapsto>
                                              latest(sensor_id \<mapsto> processed_data))\<rparr>
                                in case run_callbacks sensor_type processed_data
                                          (case callbacks s2 sensor_type of
                                             None \<Rightarrow> []
                                           | Some cbs \<Rightarrow> cbs) w of
                                     (w', clg) \<Rightarrow>
                                       (s2, w', lg @ clg @ [DebugProcessed sensor_id sensor_type])))
                      | _ \<Rightarrow> (s, w, lg @ [ErrorMessage TypeError])))))"

text \<open>Truth value of a Python object, and \<^verbatim>\<open>x in d\<close> for a dict with string keys.\<close>

definition truthy :: "pyval \<Rightarrow> bool" where
  "truthy x =
     (case x of
        VNone \<Rightarrow> False
      | VBool b \<Rightarrow> b
      | VInt i \<Rightarrow> i \<noteq> 0
      | VFloat f \<Rightarrow> f \<noteq> Fin 0
      | VStr s \<Rightarrow> s \<noteq> []
      | VList xs \<Rightarrow> xs \<noteq> []
      | VDict d \<Rightarrow> d \<noteq> [])"

definition key_in :: "pyval \<Rightarrow> (string \<rightharpoonup> 'a) \<Rightarrow> pyexc + bool" where
  "key_in x m =
     (case x of
        VStr k \<Rightarrow> Inr (m k \<noteq> None)
      | VList _ \<Rightarrow> Inl TypeError
      | VDict _ \<Rightarrow> Inl TypeError
      | _ \<Rightarrow> Inr False)"

text \<open>
  \<^verbatim>\<open>get_latest_data\<close> returns the readings of one type by sensor id, or the whole
  \<^verbatim>\<open>sensor_data\<close> by type and sensor id. The literal \<^verbatim>\<open>{}\<close> is \<open>ByType Map.empty\<close>.
\<close>

datatype latest_data =
    ByType "string \<rightharpoonup> pydict"
  | AllTypes "string \<rightharpoonup> (string \<rightharpoonup> pydict)"

definition get_latest_data :: "'w iot_manager \<Rightarrow> pyval \<Rightarrow> latest_data" where
  "get_latest_data s sensor_type =
     (if truthy sensor_type then
        (case key_in sensor_type (data_buffer s) of
           Inl e \<Rightarrow> ByType Map.empty
         | Inr False \<Rightarrow> ByType Map.empty
         | Inr True \<Rightarrow>
             (case sensor_type of
                VStr t \<Rightarrow> ByType (case sensor_data s t of None \<Rightarrow> Map.empty | Some m \<Rightarrow> m)
              | _ \<Rightarrow> ByType Map.empty))
      else AllTypes (sensor_data s))"

text \<open>
  \<^verbatim>\<open>get_buffer_data\<close>; \<^verbatim>\<open>data[-limit:]\<close> is the last \<^verbatim>\<open>limit\<close> elements. A bool
  is an int, so \<^verbatim>\<open>True\<close> is the limit 1.
\<close>

definition get_buffer_data :: "'w iot_manager \<Rightarrow> pyval \<Rightarrow> pyval \<Rightarrow> pydict list" where
  "get_buffer_data s sensor_type limit =
     (case key_in sensor_type (data_buffer s) of
        Inl e \<Rightarrow> []
      | Inr False \<Rightarrow> []
      | Inr True \<Rightarrow>
          (case sensor_type of
             VStr t \<Rightarrow>
               (let data = (case data_buffer s t of None \<Rightarrow> [] | Some b \<Rightarrow> b) in
                case limit of
                  VInt n \<Rightarrow> (if n > 0 then drop (length data - nat n) data else data)
                | VBool b \<Rightarrow> (if b then drop (length data - 1) data else data)
                | _ \<Rightarrow> data)
           | _ \<Rightarrow> []))"

text \<open>\<^verbatim>\<open>register_callback\<close>: \<^verbatim>\<open>ValueError\<close> for an object that is not callable.\<close>

definition register_callback ::
  "'w iot_manager \<Rightarrow> string \<Rightarrow> 'w pyobj \<Rightarrow> pyexc + 'w iot_manager" where
  "register_callback s sensor_type callback =
     (case callback of
        NotCallable \<Rightarrow> Inl ValueError
      | Callable f \<Rightarrow>
          Inr (s\<lparr>callbacks := (callbacks s)(sensor_type \<mapsto>
                 (case callbacks s sensor_type of None \<Rightarrow> [] | Some cbs \<Rightarrow> cbs) @ [f])\<rparr>))"

text \<open>
  \<^verbatim>\<open>disconnect\<close>; \<open>broker_raises\<close> says whether \<^verbatim>\<open>loop_stop\<close> or the client's
  \<^verbatim>\<open>disconnect\<close> raised, in which case \<^verbatim>\<open>connected\<close> keeps its value. The
  \<^verbatim>\<open>finally\<close> block runs in both cases.
\<close>

definition disconnect :: "bool \<Rightarrow> 'w iot_manager \<Rightarrow> 'w iot_manager" where
  "disconnect broker_raises s =
     s\<lparr>connected := (if broker_raises then connected s else False),
       sensor_data := Map.empty,
       data_buffer := (\<lambda>k. map_option (\<lambda>_. []) (data_buffer s k))\<rparr>"

text \<open>
  The connection. The broker client is outside the repository: \<open>is_connected\<close> and
  \<open>connect_ok\<close> say what \<^verbatim>\<open>client.is_connected()\<close> returns and whether
  \<^verbatim>\<open>client.connect\<close> returns, and \<open>reconnect_ok k\<close> whether the call of
  \<^verbatim>\<open>client.reconnect()\<close> made after \<open>k\<close> failures returns. The trace lists the calls
  of the client and of \<^verbatim>\<open>time.sleep\<close> in order.
\<close>

record broker =
  is_connected :: bool
  connect_ok :: bool
  reconnect_ok :: "nat \<Rightarrow> bool"

datatype conn_event = CallConnect | CallReconnect | Sleep int

text \<open>
  The \<^verbatim>\<open>while\<close> loop of \<^verbatim>\<open>_try_reconnect\<close>. The result is \<open>True\<close> when the loop
  ended by \<^verbatim>\<open>return\<close>, with the delay and the trace.
\<close>

function try_reconnect_loop ::
  "(nat \<Rightarrow> bool) \<Rightarrow> int \<Rightarrow> bool \<Rightarrow> nat \<Rightarrow> int \<Rightarrow> bool \<times> int \<times> conn_event list" where
  "try_reconnect_loop ok max_attempts conn attempts delay =
     (if \<not> conn \<and> int attempts < max_attempts then
        (if ok attempts then (True, delay, [CallReconnect])
         else
           (let attempts' = attempts + 1;
                delay' = delay * 2;
                slept = (if int attempts' < max_attempts then [Sleep delay'] else [])
            in case try_reconnect_loop ok max_attempts conn attempts' delay' of
                 (r, d, tr) \<Rightarrow> (r, d, CallReconnect # slept @ tr)))
      else (False, delay, []))"
  by pat_completeness auto
termination
  by (relation "measure (\<lambda>(ok, m, c, a, d). nat (m - int a))") auto

declare try_reconnect_loop.simps [simp del]

text \<open>
  \<^verbatim>\<open>_try_reconnect\<close>: \<open>Some ConnectionError\<close> is the exception it raises, \<open>None\<close> a
  normal return.
\<close>

definition try_reconnect ::
  "(nat \<Rightarrow> bool) \<Rightarrow> 'w iot_manager \<Rightarrow> pyexc option \<times> 'w iot_manager \<times> conn_event list" where
  "try_reconnect ok s =
     (case try_reconnect_loop ok (max_reconnect_attempts s) (connected s) 0 (reconnect_delay s) of
        (True, d, tr) \<Rightarrow> (None, s\<lparr>connected := True, reconnect_delay := d\<rparr>, tr)
      | (False, d, tr) \<Rightarrow>
          (if \<not> connected s then (Some ConnectionError, s\<lparr>reconnect_delay := d\<rparr>, tr)
           else (None, s\<lparr>reconnect_delay := d\<rparr>, tr)))"

text \<open>\<^verbatim>\<open>connect\<close>: the exception of \<^verbatim>\<open>_try_reconnect\<close> leaves through its handler.\<close>

definition connect ::
  "broker \<Rightarrow> 'w iot_manager \<Rightarrow> pyexc option \<times> 'w iot_manager \<times> conn_event list" where
  "connect b s =
     (if is_connected b then (None, s, [])
      else if connect_ok b then (None, s\<lparr>connected := True\<rparr>, [CallConnect])
      else
        (case try_reconnect (reconnect_ok b) (s\<lparr>connected := False\<rparr>) of
           (r, s', tr) \<Rightarrow> (r, s', CallConnect # tr)))"

section \<open>Example inputs\<close>

text \<open>
  The examples below carry one timestamp, which \<^verbatim>\<open>strptime\<close> accepts under the format of
  \<^verbatim>\<open>VALIDATION_RULES\<close>, and no value as a string, so \<open>float_of_str\<close> is never consulted.
\<close>

definition example_lib :: pylib where
  "example_lib =
     \<lparr>float_of_str = (\<lambda>s. None),
      strptime_ok = (\<lambda>s. s = ''2024-01-15T10:30:00.000000'')\<rparr>"

text \<open>A reading as \<^verbatim>\<open>validate_sensor_data\<close> wants it, with a client-supplied unit.\<close>

definition example_reading :: "string \<Rightarrow> pyval \<Rightarrow> string \<Rightarrow> pydict" where
  "example_reading sensor_type v zone =
     [(''value'', v), (''unit'', VStr ''client unit''),
      (''timestamp'', VStr ''2024-01-15T10:30:00.000000''),
      (''sensor_id'', VStr ''s1''), (''sensor_type'', VStr sensor_type),
      (''location'',
         VDict [(''zone'', VStr zone),
                (''coordinates'',
                   VDict [(''lat'', VFloat (Fin (- 5.1875))),
                          (''lon'', VFloat (Fin (- 37.34375)))])])]"

text \<open>The payload of section 6 of the design: no \<^verbatim>\<open>sensor_id\<close>, no \<^verbatim>\<open>sensor_type\<close>.\<close>

definition example_payload :: pydict where
  "example_payload =
     [(''value'', VFloat (Fin 25.5)), (''unit'', VStr [CHR 0xB0, CHR ''C'']),
      (''location'',
         VDict [(''zone'', VStr ''Centro''),
                (''coordinates'',
                   VDict [(''lat'', VFloat (Fin (- 5.1875))),
                          (''lon'', VFloat (Fin (- 37.34375)))])]),
      (''status'', VStr ''active''), (''battery'', VInt 85),
      (''timestamp'', VStr ''2024-01-15T10:30:00.000000'')]"

text \<open>
  The world of the example callbacks is the list of what they were called with. The first
  records its call and raises, the second records its call and returns.
\<close>

definition failing_callback :: "(string \<times> pydict) list callback" where
  "failing_callback processed w = (True, w @ [(''first'', processed)])"

definition recording_callback :: "(string \<times> pydict) list callback" where
  "recording_callback processed w = (False, w @ [(''second'', processed)])"

section \<open>Notions the properties are stated with\<close>

text \<open>
  The band of a value as the design states it: the first band, in catalog order, whose
  closed interval holds the value, and \<^verbatim>\<open>unknown\<close> when none does.
\<close>

fun first_band :: "(string \<times> int \<times> int) list \<Rightarrow> real \<Rightarrow> string" where
  "first_band [] r = ''unknown''"
| "first_band ((label, lo, hi) # bands) r =
     (if of_int lo \<le> r \<and> r \<le> of_int hi then label else first_band bands r)"

text \<open>
  The reading \<^verbatim>\<open>on_message\<close> stores for a message, if any, with the sensor type and the
  sensor id of the topic: the payload parses to a dict, the topic has at least two parts, and
  both validators accept.
\<close>

definition accepted_reading ::
  "pylib \<Rightarrow> string \<Rightarrow> message \<Rightarrow> (string \<times> string \<times> pydict) option" where
  "accepted_reading lib now msg =
     (case payload msg of
        Inr (VDict d) \<Rightarrow>
          (let topic_parts = split_topic (topic msg) in
           if 2 \<le> length topic_parts \<and>
              fst (manager_validate_sensor_data lib (VDict d) (last topic_parts)) \<and>
              fst (validate_sensor_data lib d)
           then Some (last topic_parts, topic_parts ! (length topic_parts - 2),
                      process_sensor_data lib now d)
           else None)
      | _ \<Rightarrow> None)"

text \<open>The store after a reading of type \<open>t\<close> from sensor \<open>sid\<close> went in.\<close>

definition store_reading ::
  "'w iot_manager \<Rightarrow> string \<Rightarrow> string \<Rightarrow> pydict \<Rightarrow> 'w iot_manager" where
  "store_reading s t sid pd =
     s\<lparr>data_buffer :=
         (case data_buffer s t of
            None \<Rightarrow> data_buffer s
          | Some buf \<Rightarrow> (data_buffer s)(t \<mapsto> buffer_append (buffer_size s) buf pd)),
       sensor_data :=
         (sensor_data s)(t \<mapsto>
            (case sensor_data s t of None \<Rightarrow> Map.empty | Some m \<Rightarrow> m)(sid \<mapsto> pd))\<rparr>"

text \<open>The subscribers of a sensor type, in registration order.\<close>

definition subscribers :: "'w iot_manager \<Rightarrow> string \<Rightarrow> 'w callback list" where
  "subscribers s t = (case callbacks s t of None \<Rightarrow> [] | Some cbs \<Rightarrow> cbs)"

text \<open>
  Calling every subscriber in order, each on the world the one before left: the flags say
  which calls raised.
\<close>

fun callback_outcomes :: "pydict \<Rightarrow> 'w callback list \<Rightarrow> 'w \<Rightarrow> bool list" where
  "callback_outcomes pd [] w = []"
| "callback_outcomes pd (cb # cbs) w = fst (cb pd w) # callback_outcomes pd cbs (snd (cb pd w))"

text \<open>A sequence of messages, each with the clock reading of its processing.\<close>

fun deliver ::
  "pylib \<Rightarrow> 'w iot_manager \<Rightarrow> 'w \<Rightarrow> (string \<times> message) list \<Rightarrow> 'w iot_manager \<times> 'w" where
  "deliver lib s w [] = (s, w)"
| "deliver lib s w ((now, msg) # rest) =
     (case on_message lib now s w msg of (s', w', lg) \<Rightarrow> deliver lib s' w' rest)"

text \<open>The readings of type \<open>t\<close> a sequence of messages inserts, in order.\<close>

fun inserted :: "pylib \<Rightarrow> string \<Rightarrow> (string \<times> message) list \<Rightarrow> pydict list" where
  "inserted lib t [] = []"
| "inserted lib t ((now, msg) # rest) =
     (case accepted_reading lib now msg of
        Some (t', sid, pd) \<Rightarrow> (if t' = t then [pd] else []) @ inserted lib t rest
      | None \<Rightarrow> inserted lib t rest)"

text \<open>The last \<open>n\<close> elements of a list.\<close>

definition last_n :: "nat \<Rightarrow> 'a list \<Rightarrow> 'a list" where
  "last_n n xs = drop (length xs - n) xs"

text \<open>
  The calls an episode of \<open>m\<close> failed reconnect attempts makes, from the delay \<open>d\<close>: \<open>m\<close>
  calls of \<^verbatim>\<open>reconnect\<close>, and between two of them a sleep of \<open>d\<close> doubled once more for
  each failure so far.
\<close>

definition backoff_trace :: "nat \<Rightarrow> int \<Rightarrow> conn_event list" where
  "backoff_trace m d =
     (if m = 0 then []
      else concat (map (\<lambda>k. [CallReconnect, Sleep (d * 2 ^ (k + 1))]) [0..<m - 1])
           @ [CallReconnect])"

text \<open>A broker that refuses every call.\<close>

definition dead_broker :: broker where
  "dead_broker = \<lparr>is_connected = False, connect_ok = False, reconnect_ok = (\<lambda>k. False)\<rparr>"

text \<open>The sleeps of a trace.\<close>

fun sleeps :: "conn_event list \<Rightarrow> int list" where
  "sleeps [] = []"
| "sleeps (Sleep d # tr) = d # sleeps tr"
| "sleeps (e # tr) = sleeps tr"

text \<open>
  The example messages: the topic of sensor \<^verbatim>\<open>s1\<close> of type \<^verbatim>\<open>temperature\<close>, with a
  payload that parsed.
\<close>

definition example_message :: "pydict \<Rightarrow> message" where
  "example_message d = \<lparr>topic = ''mossoro/sensors/s1/temperature'', payload = Inr (VDict d)\<rparr>"

text \<open>A manager with the two example callbacks subscribed to \<^verbatim>\<open>temperature\<close>.\<close>

definition example_manager :: "(string \<times> pydict) list iot_manager" where
  "example_manager =
     init\<lparr>callbacks := [''temperature'' \<mapsto> [failing_callback, recording_callback]]\<rparr>"

section \<open>Properties\<close>

subsection \<open>Auxiliary facts\<close>

lemma map_of_dict_set: "map_of (dict_set k v d) = (map_of d)(k \<mapsto> v)"
  by (induction d) (auto simp: fun_eq_iff)

lemma first_rejection_accepts:
  "first_rejection cs = (True, r) \<longleftrightarrow> (\<forall>c \<in> set cs. c = None) \<and> r = None"
  by (induction cs rule: first_rejection.induct) auto

lemma first_rejection_fst:
  "fst (first_rejection cs) \<longleftrightarrow> (\<forall>c \<in> set cs. c = None)"
  by (induction cs rule: first_rejection.induct) auto

lemma first_rejection_snd:
  "snd (first_rejection cs) = None \<longleftrightarrow> fst (first_rejection cs)"
  by (induction cs rule: first_rejection.induct) auto

lemma in_int_range_Fin:
  "in_int_range r v \<longleftrightarrow> (\<exists>x. v = Fin x \<and> of_int (fst r) \<le> x \<and> x \<le> of_int (snd r))"
  by (cases v) (auto simp: in_int_range_def)

lemma category_of_first_band:
  "category_of ths (Fin r) = first_band ths r"
  by (induction ths r rule: first_band.induct) (auto simp: category_of_def in_int_range_def)

lemma check_sensor_type_NoneD:
  assumes "check_sensor_type data = None"
  obtains t d where "map_of data ''sensor_type'' = Some (VStr t)" "map_of SENSOR_TYPES t = Some d"
  using assms
  by (auto simp: check_sensor_type_def dict_get_def Let_def split: option.splits pyval.splits if_splits)

lemma check_value_NoneD:
  assumes "check_value lib data = None"
    and "map_of data ''sensor_type'' = Some (VStr t)" and "map_of SENSOR_TYPES t = Some d"
  obtains x r where "map_of data ''value'' = Some x" "py_float lib x = Inr (Fin r)"
    "of_int (fst (valid_range d)) \<le> r" "r \<le> of_int (snd (valid_range d))"
  using assms
  by (auto simp: check_value_def dict_get_def in_int_range_Fin split: option.splits sum.splits pyexc.splits if_splits)

lemma validate_acceptedD:
  assumes "validate_sensor_data lib data = (True, e)"
  shows "check_required_fields data = None" "check_sensor_type data = None"
    "check_value lib data = None" "check_timestamp lib data = None"
    "check_location data = None" "check_coordinates data = None" "check_zone data = None"
  using assms by (simp_all add: validate_sensor_data_def first_rejection_accepts)

lemma process_accepted:
  assumes "map_of data ''sensor_type'' = Some (VStr t)" and "map_of SENSOR_TYPES t = Some d"
    and "map_of data ''value'' = Some x" and "py_float lib x = Inr v"
  shows "process_sensor_data lib now data =
     dict_set ''unit'' (VStr (units d))
       (dict_set ''trend'' (VStr ''stable'')
         (dict_set ''status_category'' (VStr (category_of (thresholds d) v))
           (dict_set ''processed_timestamp'' (VStr now) data)))"
  using assms by (simp add: process_sensor_data_def)

lemma catalog_labels_nonempty:
  assumes "map_of SENSOR_TYPES t = Some d" and "(l, b) \<in> set (thresholds d)"
  shows "l \<noteq> []"
  using assms by (auto simp: SENSOR_TYPES_def split: if_splits)

lemma first_band_cases:
  "first_band ths r = ''unknown'' \<or> (\<exists>b. (first_band ths r, b) \<in> set ths)"
  by (induction ths r rule: first_band.induct) auto

lemmas example_defs =
  example_lib_def example_reading_def example_payload_def
lemmas validate_defs =
  validate_sensor_data_def check_required_fields_def required_fields_def
  check_sensor_type_def dict_get_def dict_get_or_empty_def SENSOR_TYPES_def check_value_def
  py_float_def in_int_range_def check_timestamp_def check_location_def location_fields_def
  str_in_def check_coordinates_def as_number_def in_real_range_def lat_range_def lon_range_def
  check_zone_def ZONES_def

subsection \<open>The enricher\<close>

text \<open>
  Claim C4. For every reading the validator accepts, the sensor type is a key of the catalog,
  \<^verbatim>\<open>float\<close> gives a finite value, and the \<^verbatim>\<open>status_category\<close> of the processed reading
  is the label of the first band of that type, in catalog order, whose closed interval holds
  the value, or \<^verbatim>\<open>unknown\<close> when no band holds it. It is never the empty string.
\<close>

theorem status_category_first_band:
  assumes "validate_sensor_data lib data = (True, None)"
  shows "\<exists>t d x r.
           map_of data ''sensor_type'' = Some (VStr t) \<and> map_of SENSOR_TYPES t = Some d \<and>
           map_of data ''value'' = Some x \<and> py_float lib x = Inr (Fin r) \<and>
           map_of (process_sensor_data lib now data) ''status_category''
             = Some (VStr (first_band (thresholds d) r)) \<and>
           first_band (thresholds d) r \<noteq> []"
proof -
  from validate_acceptedD[OF assms]
  have st: "check_sensor_type data = None" and cv: "check_value lib data = None" by simp_all
  from st obtain t d where t: "map_of data ''sensor_type'' = Some (VStr t)"
    and d: "map_of SENSOR_TYPES t = Some d"
    by (rule check_sensor_type_NoneD)
  from cv t d obtain x r where x: "map_of data ''value'' = Some x"
    and r: "py_float lib x = Inr (Fin r)"
    by (rule check_value_NoneD)
  have cat: "map_of (process_sensor_data lib now data) ''status_category''
      = Some (VStr (first_band (thresholds d) r))"
    by (simp add: process_accepted[OF t d x r] map_of_dict_set category_of_first_band)
  have "first_band (thresholds d) r \<noteq> []"
    using first_band_cases[of "thresholds d" r] catalog_labels_nonempty[OF d] by auto
  with t d x r cat show ?thesis by blast
qed

text \<open>The scenario of the design: 45.0 degrees in Centro is accepted, with category \<^verbatim>\<open>hot\<close>.\<close>

theorem status_category_first_band_witness:
  "validate_sensor_data example_lib
     (example_reading ''temperature'' (VFloat (Fin 45)) ''Centro'') = (True, None) \<and>
   map_of (process_sensor_data example_lib ''now''
     (example_reading ''temperature'' (VFloat (Fin 45)) ''Centro'')) ''status_category''
     = Some (VStr ''hot'')"
proof -
  have a: "validate_sensor_data example_lib
     (example_reading ''temperature'' (VFloat (Fin 45)) ''Centro'') = (True, None)"
    by (simp add: validate_defs example_defs)
  from status_category_first_band[OF a, of "''now''"] show ?thesis
    using a by (auto simp: example_reading_def example_lib_def py_float_def SENSOR_TYPES_def)
qed

text \<open>
  Claim C8. For every reading the validator accepts, the processed reading carries the unit
  of the catalog entry of its sensor type, whatever unit the client sent, the clock reading
  taken while processing as \<^verbatim>\<open>processed_timestamp\<close>, and the trend \<^verbatim>\<open>stable\<close>.
\<close>

theorem processed_unit_timestamp_trend:
  assumes "validate_sensor_data lib data = (True, None)"
  shows "\<exists>t d.
           map_of data ''sensor_type'' = Some (VStr t) \<and> map_of SENSOR_TYPES t = Some d \<and>
           map_of (process_sensor_data lib now data) ''unit'' = Some (VStr (units d)) \<and>
           map_of (process_sensor_data lib now data) ''processed_timestamp'' = Some (VStr now) \<and>
           map_of (process_sensor_data lib now data) ''trend'' = Some (VStr ''stable'')"
proof -
  from validate_acceptedD[OF assms]
  have st: "check_sensor_type data = None" and cv: "check_value lib data = None" by simp_all
  from st obtain t d where t: "map_of data ''sensor_type'' = Some (VStr t)"
    and d: "map_of SENSOR_TYPES t = Some d"
    by (rule check_sensor_type_NoneD)
  from cv t d obtain x r where x: "map_of data ''value'' = Some x"
    and r: "py_float lib x = Inr (Fin r)"
    by (rule check_value_NoneD)
  have "map_of (process_sensor_data lib now data) ''unit'' = Some (VStr (units d))"
    and "map_of (process_sensor_data lib now data) ''processed_timestamp'' = Some (VStr now)"
    and "map_of (process_sensor_data lib now data) ''trend'' = Some (VStr ''stable'')"
    by (simp_all add: process_accepted[OF t d x r] map_of_dict_set)
  with t d show ?thesis by blast
qed

text \<open>The client's unit of the example reading is replaced by the catalog's.\<close>

theorem processed_unit_timestamp_trend_witness:
  "validate_sensor_data example_lib
     (example_reading ''temperature'' (VFloat (Fin 45)) ''Centro'') = (True, None) \<and>
   map_of (example_reading ''temperature'' (VFloat (Fin 45)) ''Centro'') ''unit''
     = Some (VStr ''client unit'') \<and>
   map_of (process_sensor_data example_lib ''2024-01-15T10:30:01.250000''
     (example_reading ''temperature'' (VFloat (Fin 45)) ''Centro'')) ''unit''
     = Some (VStr [CHR 0xB0, CHR ''C'']) \<and>
   map_of (process_sensor_data example_lib ''2024-01-15T10:30:01.250000''
     (example_reading ''temperature'' (VFloat (Fin 45)) ''Centro'')) ''processed_timestamp''
     = Some (VStr ''2024-01-15T10:30:01.250000'') \<and>
   map_of (process_sensor_data example_lib ''2024-01-15T10:30:01.250000''
     (example_reading ''temperature'' (VFloat (Fin 45)) ''Centro'')) ''trend''
     = Some (VStr ''stable'')"
proof -
  have a: "validate_sensor_data example_lib
     (example_reading ''temperature'' (VFloat (Fin 45)) ''Centro'') = (True, None)"
    by (simp add: validate_defs example_defs)
  from processed_unit_timestamp_trend[OF a, of "''2024-01-15T10:30:01.250000''"] show ?thesis
    using a by (auto simp: example_reading_def SENSOR_TYPES_def)
qed

text \<open>
  Claim C10. The bands of \<^verbatim>\<open>flood\<close> leave the gap between 30 and 31 open: for every
  flood reading with a value strictly between 30 and 31 the value block of the validator
  passes (the value is inside the valid range 0 to 1000), the category of the processed
  reading is \<^verbatim>\<open>unknown\<close>, and the example reading with that value is accepted by the whole
  validator.
\<close>

theorem flood_gap_unknown:
  assumes "map_of data ''sensor_type'' = Some (VStr ''flood'')"
    and "map_of data ''value'' = Some x"
    and "py_float lib x = Inr (Fin r)"
    and "30 < r" and "r < 31"
  shows "check_value lib data = None \<and>
         map_of (process_sensor_data lib now data) ''status_category'' = Some (VStr ''unknown'') \<and>
         validate_sensor_data example_lib (example_reading ''flood'' (VFloat (Fin r)) ''Centro'')
           = (True, None)"
proof -
  have d: "map_of SENSOR_TYPES ''flood'' =
     Some \<lparr>units = ''mm'', valid_range = (0, 1000), thresholds =
        [(''normal'', 0, 30), (''attention'', 31, 50), (''alert'', 51, 100),
         (''danger'', 101, 200), (''critical'', 201, 1000)]\<rparr>"
    by (simp add: SENSOR_TYPES_def)
  have 1: "check_value lib data = None"
    using assms by (simp add: check_value_def dict_get_def d in_int_range_def)
  have 2: "map_of (process_sensor_data lib now data) ''status_category'' = Some (VStr ''unknown'')"
    using assms(4,5)
    by (simp add: process_accepted[OF assms(1) d assms(2,3)] map_of_dict_set
        category_of_first_band)
  have 3: "validate_sensor_data example_lib (example_reading ''flood'' (VFloat (Fin r)) ''Centro'')
           = (True, None)"
    using assms(4,5) by (simp add: validate_defs example_defs)
  from 1 2 3 show ?thesis by simp
qed

text \<open>The flood reading 30.5 is accepted and has the category \<^verbatim>\<open>unknown\<close>.\<close>

theorem flood_gap_unknown_witness:
  "map_of (process_sensor_data example_lib ''now''
      (example_reading ''flood'' (VFloat (Fin 30.5)) ''Centro'')) ''status_category''
     = Some (VStr ''unknown'') \<and>
   validate_sensor_data example_lib (example_reading ''flood'' (VFloat (Fin 30.5)) ''Centro'')
     = (True, None)"
  using flood_gap_unknown[of "example_reading ''flood'' (VFloat (Fin 30.5)) ''Centro''"
      "VFloat (Fin 30.5)" example_lib "30.5" "''now''"]
  by (simp add: example_reading_def py_float_def)

subsection \<open>The validator\<close>

text \<open>
  Claim C2, as stated, fails: \<^verbatim>\<open>noise\<close> is not among the sensor types of Zona Norte, and
  the validator accepts a noise reading located there.
\<close>

theorem zone_allowed_types_counterexample:
  "map_of ZONES ''Zona Norte'' =
     Some [''air_quality'', ''traffic'', ''temperature'', ''humidity'', ''flood'',
           ''smart_camera'', ''drone''] \<and>
   ''noise'' \<notin> set (the (map_of ZONES ''Zona Norte'')) \<and>
   validate_sensor_data example_lib
     (example_reading ''noise'' (VFloat (Fin 45)) ''Zona Norte'') = (True, None)"
  by (simp add: validate_defs example_defs)

text \<open>
  Claim C2, amended. The zone block only asks whether the zone is a key of \<^verbatim>\<open>ZONES\<close>: a
  reading that passes the six blocks before it and names its zone by a string is rejected
  with \<open>InvalidZone\<close> when the zone is unknown and accepted when it is known, whatever its
  sensor type.
\<close>

theorem zone_check_membership_only:
  assumes "check_required_fields data = None" and "check_sensor_type data = None"
    and "check_value lib data = None" and "check_timestamp lib data = None"
    and "check_location data = None" and "check_coordinates data = None"
    and "map_of data ''location'' = Some (VDict location)"
    and "map_of location ''zone'' = Some (VStr z)"
  shows "validate_sensor_data lib data =
           (if map_of ZONES z = None then (False, Some (InvalidZone (VStr z))) else (True, None))"
  using assms by (simp add: validate_sensor_data_def check_zone_def dict_get_or_empty_def)

text \<open>
  The scenario of the design, zone \<^verbatim>\<open>Marte\<close>, is rejected; the noise reading of Zona Norte
  is accepted.
\<close>

theorem zone_check_membership_only_witness:
  "validate_sensor_data example_lib
     (example_reading ''temperature'' (VFloat (Fin 45)) ''Marte'')
     = (False, Some (InvalidZone (VStr ''Marte''))) \<and>
   validate_sensor_data example_lib
     (example_reading ''noise'' (VFloat (Fin 45)) ''Zona Norte'') = (True, None)"
proof -
  have a: "validate_sensor_data example_lib
     (example_reading ''temperature'' (VFloat (Fin 45)) ''Marte'')
     = (if map_of ZONES ''Marte'' = None then (False, Some (InvalidZone (VStr ''Marte'')))
        else (True, None))"
    by (rule zone_check_membership_only[where location =
          "[(''zone'', VStr ''Marte''),
            (''coordinates'', VDict [(''lat'', VFloat (Fin (- 5.1875))),
                                     (''lon'', VFloat (Fin (- 37.34375)))])]"])
       (simp_all add: validate_defs example_defs)
  have b: "validate_sensor_data example_lib
     (example_reading ''noise'' (VFloat (Fin 45)) ''Zona Norte'')
     = (if map_of ZONES ''Zona Norte'' = None
        then (False, Some (InvalidZone (VStr ''Zona Norte''))) else (True, None))"
    by (rule zone_check_membership_only[where location =
          "[(''zone'', VStr ''Zona Norte''),
            (''coordinates'', VDict [(''lat'', VFloat (Fin (- 5.1875))),
                                     (''lon'', VFloat (Fin (- 37.34375)))])]"])
       (simp_all add: validate_defs example_defs)
  from a b show ?thesis by (simp add: ZONES_def)
qed

subsection \<open>The router\<close>

lemma manager_validate_True_log:
  "manager_validate_sensor_data lib pl t = (True, lg) \<Longrightarrow> lg = [] \<and> (\<exists>d. pl = VDict d)"
  by (auto simp: manager_validate_sensor_data_def split: sum.splits bool.splits pyval.splits if_splits option.splits)

lemma on_message_accepted:
  assumes "accepted_reading lib now msg = Some (t, sid, pd)"
  shows "on_message lib now s w msg =
           (store_reading s t sid pd,
            fst (run_callbacks t pd (subscribers s t) w),
            snd (run_callbacks t pd (subscribers s t) w) @ [DebugProcessed sid t])"
proof -
  from assms obtain d where d: "payload msg = Inr (VDict d)"
    by (auto simp: accepted_reading_def split: sum.splits pyval.splits)
  let ?parts = "split_topic (topic msg)"
  from assms d have len: "2 \<le> length ?parts"
    and mv: "fst (manager_validate_sensor_data lib (VDict d) (last ?parts))"
    and v: "fst (validate_sensor_data lib d)"
    and t: "t = last ?parts" and sid: "sid = ?parts ! (length ?parts - 2)"
    and pd: "pd = process_sensor_data lib now d"
    by (auto simp: accepted_reading_def Let_def split: if_splits)
  from mv have mv': "manager_validate_sensor_data lib (VDict d) (last ?parts) = (True, [])"
    using manager_validate_True_log[of lib "VDict d" "last ?parts"]
    by (cases "manager_validate_sensor_data lib (VDict d) (last ?parts)") auto
  from v obtain e where v': "validate_sensor_data lib d = (True, e)"
    by (cases "validate_sensor_data lib d") auto
  show ?thesis
    using len
    by (cases "data_buffer s (last ?parts)")
       (simp_all add: on_message_def d mv' v' Let_def t sid pd store_reading_def subscribers_def
          split: prod.splits)
qed

lemma on_message_not_accepted:
  assumes "accepted_reading lib now msg = None"
  shows "fst (on_message lib now s w msg) = s \<and> fst (snd (on_message lib now s w msg)) = w"
  using assms
  by (auto simp: accepted_reading_def on_message_def Let_def
      split: sum.splits pyval.splits pyexc.splits prod.splits bool.splits if_splits)

lemma run_callbacks_Cons:
  "run_callbacks t pd (cb # cbs) w =
     (fst (run_callbacks t pd cbs (snd (cb pd w))),
      (if fst (cb pd w) then [ErrorCallback t] else [])
        @ snd (run_callbacks t pd cbs (snd (cb pd w))))"
  by (simp split: prod.splits)

lemma run_callbacks_world:
  "fst (run_callbacks t pd cbs w) = fold (\<lambda>cb w. snd (cb pd w)) cbs w"
  by (induction cbs arbitrary: w) (simp_all add: run_callbacks_Cons del: run_callbacks.simps(2))

lemma run_callbacks_log:
  "snd (run_callbacks t pd cbs w) =
     map (\<lambda>_. ErrorCallback t) (filter (\<lambda>b. b) (callback_outcomes pd cbs w))"
  by (induction cbs arbitrary: w) (simp_all add: run_callbacks_Cons del: run_callbacks.simps(2))

lemma length_callback_outcomes: "length (callback_outcomes pd cbs w) = length cbs"
  by (induction cbs arbitrary: w) auto

lemma buffer_append_last_n:
  assumes "int (length buf) \<le> cap"
  shows "buffer_append cap buf x = last_n (nat cap) (buf @ [x])"
proof (cases "int (length buf) + 1 > cap")
  case True
  with assms have len: "length buf = nat cap" by linarith
  have "tl (buf @ [x]) = drop 1 (buf @ [x])" by (cases buf) simp_all
  moreover have "length (buf @ [x]) - nat cap = 1" using len by simp
  ultimately show ?thesis using True
    by (simp add: buffer_append_def last_n_def del: drop_append)
next
  case False
  then show ?thesis by (simp add: buffer_append_def last_n_def)
qed

lemma last_n_append_last_n:
  "last_n n (last_n n xs @ ys) = last_n n (xs @ ys)"
  by (cases "n \<le> length xs") (auto simp: last_n_def add.commute)

lemma length_last_n: "length (last_n n xs) = min n (length xs)"
  by (simp add: last_n_def)

lemma on_message_buffer_size:
  "buffer_size (fst (on_message lib now s w msg)) = buffer_size s"
proof (cases "accepted_reading lib now msg")
  case None
  then show ?thesis by (simp add: on_message_not_accepted)
next
  case (Some a)
  then show ?thesis
    by (cases a) (simp add: on_message_accepted store_reading_def)
qed

lemma on_message_data_buffer:
  "data_buffer (fst (on_message lib now s w msg)) t =
     (case accepted_reading lib now msg of
        None \<Rightarrow> data_buffer s t
      | Some (t', sid, pd) \<Rightarrow>
          (if t' = t then map_option (\<lambda>buf. buffer_append (buffer_size s) buf pd) (data_buffer s t)
           else data_buffer s t))"
proof (cases "accepted_reading lib now msg")
  case None
  then show ?thesis by (simp add: on_message_not_accepted)
next
  case (Some a)
  then show ?thesis
    by (cases a) (auto simp: on_message_accepted store_reading_def split: option.splits)
qed

lemma deliver_buffer:
  assumes "data_buffer s t = Some buf" and "int (length buf) \<le> buffer_size s"
  shows "data_buffer (fst (deliver lib s w msgs)) t =
           Some (last_n (nat (buffer_size s)) (buf @ inserted lib t msgs))"
  using assms
proof (induction msgs arbitrary: s w buf)
  case Nil
  then show ?case by (simp add: last_n_def)
next
  case (Cons m msgs)
  obtain now msg where m: "m = (now, msg)" by (cases m)
  obtain s' w' lg where om: "on_message lib now s w msg = (s', w', lg)"
    by (cases "on_message lib now s w msg")
  have bs: "buffer_size s' = buffer_size s"
    using on_message_buffer_size[of lib now s w msg] om by simp
  have db: "data_buffer s' t =
     (case accepted_reading lib now msg of
        None \<Rightarrow> data_buffer s t
      | Some (t', sid, pd) \<Rightarrow>
          (if t' = t then map_option (\<lambda>buf. buffer_append (buffer_size s) buf pd) (data_buffer s t)
           else data_buffer s t))"
    using on_message_data_buffer[of lib now s w msg t] om by simp
  show ?case
  proof (cases "\<exists>sid pd. accepted_reading lib now msg = Some (t, sid, pd)")
    case True
    then obtain sid pd where acc: "accepted_reading lib now msg = Some (t, sid, pd)" by blast
    let ?b = "last_n (nat (buffer_size s)) (buf @ [pd])"
    have b': "data_buffer s' t = Some ?b"
      using db acc Cons.prems by (simp add: buffer_append_last_n)
    have len: "int (length ?b) \<le> buffer_size s'"
      using Cons.prems(2) bs by (simp add: length_last_n)
    have "data_buffer (fst (deliver lib s' w' msgs)) t =
            Some (last_n (nat (buffer_size s')) (?b @ inserted lib t msgs))"
      by (rule Cons.IH[OF b' len])
    then show ?thesis
      using acc last_n_append_last_n[of "nat (buffer_size s)" "buf @ [pd]" "inserted lib t msgs"]
      by (simp add: m om bs)
  next
    case False
    then have ins: "inserted lib t (m # msgs) = inserted lib t msgs"
      by (auto simp: m split: option.splits)
    from False have b': "data_buffer s' t = Some buf"
      using db Cons.prems(1) by (auto split: option.splits)
    have len: "int (length buf) \<le> buffer_size s'" using Cons.prems(2) bs by simp
    have "data_buffer (fst (deliver lib s' w' msgs)) t =
            Some (last_n (nat (buffer_size s')) (buf @ inserted lib t msgs))"
      by (rule Cons.IH[OF b' len])
    then show ?thesis using ins unfolding m by (simp add: om bs)
  qed
qed

subsection \<open>The connection\<close>

lemma backoff_trace_Suc:
  "backoff_trace (Suc n) d =
     CallReconnect # (if 0 < n then Sleep (d * 2) # backoff_trace n (d * 2) else [])"
proof (cases n)
  case 0
  then show ?thesis by (simp add: backoff_trace_def)
next
  case (Suc k)
  have "map (\<lambda>j. [CallReconnect, Sleep (d * 2 ^ (j + 1))]) [0..<Suc k] =
        [CallReconnect, Sleep (d * 2)] #
        map (\<lambda>j. [CallReconnect, Sleep (d * 2 * 2 ^ (j + 1))]) [0..<k]"
    by (simp add: upt_conv_Cons map_Suc_upt[symmetric] del: upt_Suc)
  then show ?thesis using Suc by (simp add: backoff_trace_def del: upt_Suc)
qed

lemma try_reconnect_loop_all_fail:
  assumes "\<forall>k < a + n. \<not> ok k"
  shows "try_reconnect_loop ok (int (a + n)) False a d = (False, d * 2 ^ n, backoff_trace n d)"
  using assms
proof (induction n arbitrary: a d)
  case 0
  then show ?case by (simp add: backoff_trace_def try_reconnect_loop.simps)
next
  case (Suc n)
  have nok: "\<not> ok a" using Suc.prems by simp
  have "\<forall>k < Suc a + n. \<not> ok k" using Suc.prems by simp
  from Suc.IH[OF this, of "d * 2"]
  have ih: "try_reconnect_loop ok (int (a + Suc n)) False (Suc a) (d * 2) =
          (False, d * 2 * 2 ^ n, backoff_trace n (d * 2))"
    by simp
  have step: "try_reconnect_loop ok (int (a + Suc n)) False a d =
      (case try_reconnect_loop ok (int (a + Suc n)) False (Suc a) (d * 2) of
         (r, d', tr) \<Rightarrow>
           (r, d', CallReconnect # (if 0 < n then [Sleep (d * 2)] else []) @ tr))"
    by (subst try_reconnect_loop.simps) (simp add: nok Let_def)
  have zero: "backoff_trace 0 (d * 2) = []" by (simp add: backoff_trace_def)
  show ?case
  proof (cases "n = 0")
    case True
    then show ?thesis unfolding step ih by (simp add: backoff_trace_Suc zero)
  next
    case False
    then show ?thesis unfolding step ih by (simp add: backoff_trace_Suc)
  qed
qed

text \<open>
  Claim C3, amended. When \<^verbatim>\<open>connect\<close> fails and each of the \<open>m\<close> reconnect attempts the
  manager allows fails too (\<open>m\<close> is 5 after \<^verbatim>\<open>__init__\<close>), the manager makes exactly \<open>m\<close>
  attempts, doubles \<^verbatim>\<open>reconnect_delay\<close> after each failure and sleeps for the doubled
  delay between two attempts, so that the waits from the initial 5 seconds are 10, 20, 40
  and 80 seconds; then it stops and raises \<^verbatim>\<open>ConnectionError\<close> to the caller of
  \<^verbatim>\<open>connect\<close>.
\<close>

theorem backoff_doubles_before_first_wait:
  assumes "\<not> is_connected b" and "\<not> connect_ok b"
    and "max_reconnect_attempts s = int m" and "0 < m"
    and "\<forall>k < m. \<not> reconnect_ok b k"
  shows "connect b s =
           (Some ConnectionError,
            s\<lparr>connected := False, reconnect_delay := reconnect_delay s * 2 ^ m\<rparr>,
            CallConnect # backoff_trace m (reconnect_delay s))"
proof -
  have "try_reconnect_loop (reconnect_ok b) (int (0 + m)) False 0 (reconnect_delay s) =
          (False, reconnect_delay s * 2 ^ m, backoff_trace m (reconnect_delay s))"
    by (rule try_reconnect_loop_all_fail) (use assms(5) in simp)
  then show ?thesis
    using assms(1-3) by (simp add: connect_def try_reconnect_def)
qed

text \<open>
  Claim C3, as stated, fails: from a new manager the first wait is 10 seconds, not 5, since the
  delay is doubled before the first sleep.
\<close>

theorem first_wait_counterexample:
  "sleeps (snd (snd (connect dead_broker (init :: unit iot_manager)))) = [10, 20, 40, 80] \<and>
   sleeps (snd (snd (connect dead_broker (init :: unit iot_manager)))) \<noteq> [5, 10, 20, 40]"
  by (simp add: connect_def try_reconnect_def dead_broker_def init_def try_reconnect_loop.simps)

text \<open>Five failures after a failed \<^verbatim>\<open>connect\<close>, from a new manager.\<close>

theorem backoff_doubles_before_first_wait_witness:
  "connect dead_broker (init :: unit iot_manager) =
     (Some ConnectionError, init\<lparr>connected := False, reconnect_delay := 160\<rparr>,
      [CallConnect, CallReconnect, Sleep 10, CallReconnect, Sleep 20, CallReconnect, Sleep 40,
       CallReconnect, Sleep 80, CallReconnect])"
  using backoff_doubles_before_first_wait[of dead_broker "init :: unit iot_manager" 5]
  by (simp add: dead_broker_def init_def backoff_trace_def upt_conv_Cons)

lemma on_message_rejected:
  assumes "\<not> fst (validate_sensor_data lib d)"
  shows "fst (on_message lib now s w \<lparr>topic = tp, payload = Inr (VDict d)\<rparr>) = s \<and>
         fst (snd (on_message lib now s w \<lparr>topic = tp, payload = Inr (VDict d)\<rparr>)) = w"
  by (rule on_message_not_accepted) (use assms in \<open>simp add: accepted_reading_def Let_def\<close>)

text \<open>
  Claim C6. A reading with every required field and a sensor type of the catalog, whose value
  \<^verbatim>\<open>float\<close> converts and which lies outside the valid range of the type, is rejected by
  the validator with \<open>OutOfRange\<close>, carrying the value as it came; \<^verbatim>\<open>on_message\<close> then
  leaves the whole manager (latest values, ring buffers) as it was and calls no callback: the
  world of the callbacks is unchanged.
\<close>

theorem out_of_range_rejected:
  assumes "\<forall>f \<in> set required_fields. map_of data f \<noteq> None"
    and "map_of data ''sensor_type'' = Some (VStr t)"
    and "map_of SENSOR_TYPES t = Some d"
    and "map_of data ''value'' = Some x"
    and "py_float lib x = Inr v"
    and "\<not> in_int_range (valid_range d) v"
  shows "validate_sensor_data lib data = (False, Some (OutOfRange v (valid_range d))) \<and>
         fst (on_message lib now s w \<lparr>topic = tp, payload = Inr (VDict data)\<rparr>) = s \<and>
         fst (snd (on_message lib now s w \<lparr>topic = tp, payload = Inr (VDict data)\<rparr>)) = w"
proof -
  have 1: "check_required_fields data = None"
    using assms(1) by (simp add: check_required_fields_def find_None_iff)
  have 2: "check_sensor_type data = None"
    using assms(2,3) by (simp add: check_sensor_type_def dict_get_def)
  have 3: "check_value lib data = Some (OutOfRange v (valid_range d))"
    using assms(2-6) by (simp add: check_value_def dict_get_def)
  have v: "validate_sensor_data lib data = (False, Some (OutOfRange v (valid_range d)))"
    by (simp add: validate_sensor_data_def 1 2 3)
  then have "\<not> fst (validate_sensor_data lib data)" by simp
  from on_message_rejected[OF this] v show ?thesis by simp
qed

text \<open>
  The scenario of the design: 500.0 degrees is rejected, and the manager with its two
  subscribers and the world stay as they were.
\<close>

theorem out_of_range_rejected_witness:
  "validate_sensor_data example_lib (example_reading ''temperature'' (VFloat (Fin 500)) ''Centro'')
     = (False, Some (OutOfRange (Fin 500) (- 50, 100))) \<and>
   fst (on_message example_lib ''now'' example_manager []
          (example_message (example_reading ''temperature'' (VFloat (Fin 500)) ''Centro'')))
     = example_manager \<and>
   fst (snd (on_message example_lib ''now'' example_manager []
          (example_message (example_reading ''temperature'' (VFloat (Fin 500)) ''Centro'')))) = []"
  using out_of_range_rejected[of "example_reading ''temperature'' (VFloat (Fin 500)) ''Centro''"
      "''temperature''"
      "\<lparr>units = [CHR 0xB0, CHR ''C''], valid_range = (-50, 100), thresholds =
        [(''very_cold'', -50, 0), (''cold'', 0, 15), (''moderate'', 15, 25),
         (''warm'', 25, 35), (''hot'', 35, 100)]\<rparr>"
      "VFloat (Fin 500)" example_lib "Fin 500" "''now''" example_manager "[]"
      "''mossoro/sensors/s1/temperature''"]
  by (simp add: example_reading_def required_fields_def SENSOR_TYPES_def py_float_def
      in_int_range_def example_message_def)

text \<open>
  Claim C1. A payload with the fields of the payload schema of the design
  (\<^verbatim>\<open>value\<close>, \<^verbatim>\<open>unit\<close>, \<^verbatim>\<open>location\<close>, \<^verbatim>\<open>timestamp\<close>) and no \<^verbatim>\<open>sensor_type\<close> key is
  rejected by \<^verbatim>\<open>SensorDataProcessor.validate_sensor_data\<close>: for the missing field
  \<^verbatim>\<open>sensor_id\<close> when that key is absent too, and otherwise for the sensor type
  \<^verbatim>\<open>None\<close> that \<^verbatim>\<open>data.get\<close> returns. \<^verbatim>\<open>on_message\<close> never copies the sensor id and
  type of the topic into the payload, so for every topic it drops the message: the manager
  (latest values, ring buffers) and the world of the callbacks stay as they were.
\<close>

theorem schema_payload_dropped:
  assumes "map_of d ''value'' \<noteq> None" and "map_of d ''unit'' \<noteq> None"
    and "map_of d ''timestamp'' \<noteq> None" and "map_of d ''location'' \<noteq> None"
    and "map_of d ''sensor_type'' = None"
  shows "validate_sensor_data lib d =
           (False, Some (if map_of d ''sensor_id'' = None then MissingField ''sensor_id''
                         else InvalidSensorType VNone)) \<and>
         fst (on_message lib now s w \<lparr>topic = tp, payload = Inr (VDict d)\<rparr>) = s \<and>
         fst (snd (on_message lib now s w \<lparr>topic = tp, payload = Inr (VDict d)\<rparr>)) = w"
proof -
  have v: "validate_sensor_data lib d =
           (False, Some (if map_of d ''sensor_id'' = None then MissingField ''sensor_id''
                         else InvalidSensorType VNone))"
    using assms
    by (auto simp: validate_sensor_data_def check_required_fields_def required_fields_def
        check_sensor_type_def dict_get_def)
  then have "\<not> fst (validate_sensor_data lib d)" by simp
  from on_message_rejected[OF this] v show ?thesis by simp
qed

text \<open>
  The example payload passes the manager's own validation for the topic of a temperature
  sensor, and is dropped for its missing \<^verbatim>\<open>sensor_id\<close>.
\<close>

theorem schema_payload_dropped_witness:
  "validate_sensor_data example_lib example_payload = (False, Some (MissingField ''sensor_id'')) \<and>
   fst (manager_validate_sensor_data example_lib (VDict example_payload) ''temperature'') \<and>
   fst (on_message example_lib ''now'' example_manager [] (example_message example_payload))
     = example_manager \<and>
   fst (snd (on_message example_lib ''now'' example_manager []
     (example_message example_payload))) = []"
  using schema_payload_dropped[of example_payload example_lib "''now''" example_manager "[]"
      "''mossoro/sensors/s1/temperature''"]
  by (simp add: example_payload_def example_message_def manager_validate_sensor_data_def
      str_in_def dict_get_def ranges_def py_float_def in_int_range_def example_lib_def)

text \<open>
  Claim C5. Let the ring buffer of a sensor type hold at most \<^verbatim>\<open>buffer_size\<close> readings
  (1000 after \<^verbatim>\<open>__init__\<close>, where it is empty). After any sequence of messages the buffer
  holds exactly the last \<^verbatim>\<open>buffer_size\<close> of the readings it held and the ones inserted
  since, in insertion order, so the oldest went first; its length is exactly
  \<^verbatim>\<open>buffer_size\<close> once that many readings came, and after no prefix of the sequence is
  the buffer longer than \<^verbatim>\<open>buffer_size\<close>.
\<close>

theorem ring_buffer_fifo:
  assumes "data_buffer s t = Some buf" and "int (length buf) \<le> buffer_size s"
  shows "data_buffer (fst (deliver lib s w msgs)) t =
           Some (last_n (nat (buffer_size s)) (buf @ inserted lib t msgs)) \<and>
         (nat (buffer_size s) \<le> length (buf @ inserted lib t msgs) \<longrightarrow>
            length (the (data_buffer (fst (deliver lib s w msgs)) t)) = nat (buffer_size s)) \<and>
         (\<forall>n. int (length (the (data_buffer (fst (deliver lib s w (take n msgs))) t)))
                \<le> buffer_size s)"
proof -
  have a: "data_buffer (fst (deliver lib s w ms)) t =
           Some (last_n (nat (buffer_size s)) (buf @ inserted lib t ms))" for ms
    by (rule deliver_buffer[OF assms])
  have nn: "0 \<le> buffer_size s" using assms(2) by linarith
  show ?thesis
    using nn by (auto simp: a length_last_n)
qed

text \<open>
  Three accepted readings: a manager with room for 1000 keeps them all in order, and one with
  room for two evicts the first.
\<close>

theorem ring_buffer_fifo_witness:
  "data_buffer
     (fst (deliver example_lib example_manager []
        [(''t1'', example_message (example_reading ''temperature'' (VInt 10) ''Centro'')),
         (''t2'', example_message (example_reading ''temperature'' (VInt 20) ''Centro'')),
         (''t3'', example_message (example_reading ''temperature'' (VInt 30) ''Centro''))]))
     ''temperature'' =
   Some [process_sensor_data example_lib ''t1'' (example_reading ''temperature'' (VInt 10) ''Centro''),
         process_sensor_data example_lib ''t2'' (example_reading ''temperature'' (VInt 20) ''Centro''),
         process_sensor_data example_lib ''t3'' (example_reading ''temperature'' (VInt 30) ''Centro'')] \<and>
   data_buffer
     (fst (deliver example_lib (example_manager\<lparr>buffer_size := 2\<rparr>) []
        [(''t1'', example_message (example_reading ''temperature'' (VInt 10) ''Centro'')),
         (''t2'', example_message (example_reading ''temperature'' (VInt 20) ''Centro'')),
         (''t3'', example_message (example_reading ''temperature'' (VInt 30) ''Centro''))]))
     ''temperature'' =
   Some [process_sensor_data example_lib ''t2'' (example_reading ''temperature'' (VInt 20) ''Centro''),
         process_sensor_data example_lib ''t3'' (example_reading ''temperature'' (VInt 30) ''Centro'')]"
proof -
  have acc: "accepted_reading example_lib now
      (example_message (example_reading ''temperature'' (VInt v) ''Centro'')) =
      Some (''temperature'', ''s1'',
            process_sensor_data example_lib now (example_reading ''temperature'' (VInt v) ''Centro''))"
    if "v = 10 \<or> v = 20 \<or> v = 30" for now v
    using that
    by (auto simp add: accepted_reading_def example_message_def validate_defs example_defs
        manager_validate_sensor_data_def ranges_def)
  have h1: "data_buffer (example_manager\<lparr>buffer_size := 2\<rparr>) ''temperature'' = Some []"
    by (simp add: example_manager_def init_def)
  have h2: "int (length ([] :: pydict list)) \<le> buffer_size (example_manager\<lparr>buffer_size := 2\<rparr>)"
    by simp
  have g1: "data_buffer example_manager ''temperature'' = Some []"
    by (simp add: example_manager_def init_def)
  have g2: "int (length ([] :: pydict list)) \<le> buffer_size example_manager"
    by (simp add: example_manager_def init_def)
  from ring_buffer_fifo[OF h1 h2, of example_lib "[]"
      "[(''t1'', example_message (example_reading ''temperature'' (VInt 10) ''Centro'')),
        (''t2'', example_message (example_reading ''temperature'' (VInt 20) ''Centro'')),
        (''t3'', example_message (example_reading ''temperature'' (VInt 30) ''Centro''))]"]
    ring_buffer_fifo[OF g1 g2, of example_lib "[]"
      "[(''t1'', example_message (example_reading ''temperature'' (VInt 10) ''Centro'')),
        (''t2'', example_message (example_reading ''temperature'' (VInt 20) ''Centro'')),
        (''t3'', example_message (example_reading ''temperature'' (VInt 30) ''Centro''))]"]
  show ?thesis
    by (simp add: acc last_n_def example_manager_def init_def)
qed

text \<open>
  Claim C7. \<^verbatim>\<open>register_callback\<close> puts the callback after the subscribers the type
  already has and leaves the other types alone. When \<^verbatim>\<open>on_message\<close> stores a reading, it
  calls every subscriber of the type once, in registration order, each on the world the one
  before left, whether or not that one raised; it logs one callback error for each call that
  raised, ends with its own debug line (no exception reaches its outer handler), and keeps
  the update of the store.
\<close>

theorem callbacks_in_order_isolated:
  "(\<exists>s'. register_callback s t (Callable f) = Inr s' \<and>
         subscribers s' t = subscribers s t @ [f] \<and>
         (\<forall>t'. t' \<noteq> t \<longrightarrow> subscribers s' t' = subscribers s t')) \<and>
   (accepted_reading lib now msg = Some (t, sid, pd) \<longrightarrow>
      on_message lib now s w msg =
        (store_reading s t sid pd,
         fold (\<lambda>cb w. snd (cb pd w)) (subscribers s t) w,
         map (\<lambda>_. ErrorCallback t) (filter (\<lambda>b. b) (callback_outcomes pd (subscribers s t) w))
           @ [DebugProcessed sid t]) \<and>
      length (callback_outcomes pd (subscribers s t) w) = length (subscribers s t))"
proof -
  have reg: "\<exists>s'. register_callback s t (Callable f) = Inr s' \<and>
         subscribers s' t = subscribers s t @ [f] \<and>
         (\<forall>t'. t' \<noteq> t \<longrightarrow> subscribers s' t' = subscribers s t')"
    by (simp add: register_callback_def subscribers_def)
  have run: "on_message lib now s w msg =
        (store_reading s t sid pd,
         fold (\<lambda>cb w. snd (cb pd w)) (subscribers s t) w,
         map (\<lambda>_. ErrorCallback t) (filter (\<lambda>b. b) (callback_outcomes pd (subscribers s t) w))
           @ [DebugProcessed sid t])"
    if "accepted_reading lib now msg = Some (t, sid, pd)"
    by (simp add: on_message_accepted[OF that] run_callbacks_world run_callbacks_log)
  from reg run show ?thesis
    by (simp add: length_callback_outcomes)
qed

text \<open>
  The first subscriber raises, the second is called all the same, and one callback error is
  logged.
\<close>

theorem callbacks_in_order_isolated_witness:
  "register_callback (init :: (string \<times> pydict) list iot_manager) ''temperature''
     (Callable failing_callback)
     = Inr (init\<lparr>callbacks := [''temperature'' \<mapsto> [failing_callback]]\<rparr>) \<and>
   register_callback (init\<lparr>callbacks := [''temperature'' \<mapsto> [failing_callback]]\<rparr>)
     ''temperature'' (Callable recording_callback) = Inr example_manager \<and>
   subscribers example_manager ''temperature'' = [failing_callback, recording_callback] \<and>
   snd (on_message example_lib ''now'' example_manager []
          (example_message (example_reading ''temperature'' (VInt 45) ''Centro''))) =
     ([(''first'', process_sensor_data example_lib ''now''
                    (example_reading ''temperature'' (VInt 45) ''Centro'')),
       (''second'', process_sensor_data example_lib ''now''
                    (example_reading ''temperature'' (VInt 45) ''Centro''))],
      [ErrorCallback ''temperature'', DebugProcessed ''s1'' ''temperature''])"
proof -
  have acc: "accepted_reading example_lib ''now''
      (example_message (example_reading ''temperature'' (VInt 45) ''Centro'')) =
      Some (''temperature'', ''s1'',
            process_sensor_data example_lib ''now''
              (example_reading ''temperature'' (VInt 45) ''Centro''))"
    by (simp add: accepted_reading_def example_message_def validate_defs example_defs
        manager_validate_sensor_data_def ranges_def)
  have sub: "subscribers example_manager ''temperature'' = [failing_callback, recording_callback]"
    by (simp add: subscribers_def example_manager_def)
  have r1: "register_callback (init :: (string \<times> pydict) list iot_manager) ''temperature''
     (Callable failing_callback)
     = Inr (init\<lparr>callbacks := [''temperature'' \<mapsto> [failing_callback]]\<rparr>)"
    by (simp add: register_callback_def init_def)
  have r2: "register_callback (init\<lparr>callbacks := [''temperature'' \<mapsto> [failing_callback]]\<rparr>)
     ''temperature'' (Callable recording_callback) = Inr example_manager"
    by (simp add: register_callback_def init_def example_manager_def)
  from callbacks_in_order_isolated[of example_manager "''temperature''" failing_callback
      example_lib "''now''"
      "example_message (example_reading ''temperature'' (VInt 45) ''Centro'')" "''s1''"
      "process_sensor_data example_lib ''now'' (example_reading ''temperature'' (VInt 45) ''Centro'')"
      "[]"]
  show ?thesis
    by (simp add: acc sub r1 r2 failing_callback_def recording_callback_def)
qed

subsection \<open>Disconnecting and reading\<close>

text \<open>
  Claim C9. After \<^verbatim>\<open>disconnect\<close>, whether or not the broker client raised, the
  latest-value map is empty and every ring buffer is the empty list, for the same sensor
  types as before. The readers are total functions: the one operation of their bodies that
  can raise, the membership test on an unhashable argument, ends in their handler. After a
  disconnect \<^verbatim>\<open>get_latest_data\<close> returns an empty mapping and \<^verbatim>\<open>get_buffer_data\<close> an empty
  list, for every argument; and in every state they return the empty mapping and the empty
  list for a sensor type that is not a key of \<^verbatim>\<open>data_buffer\<close> (for \<^verbatim>\<open>get_latest_data\<close>, a
  type that is not \<^verbatim>\<open>None\<close> or empty, which the reader takes as no type given).
\<close>

theorem disconnect_clears_readers_empty:
  "sensor_data (disconnect broker_raises s) = Map.empty \<and>
   dom (data_buffer (disconnect broker_raises s)) = dom (data_buffer s) \<and>
   (\<forall>t \<in> dom (data_buffer s). data_buffer (disconnect broker_raises s) t = Some []) \<and>
   get_latest_data (disconnect broker_raises s) a
     = (if truthy a then ByType Map.empty else AllTypes Map.empty) \<and>
   get_buffer_data (disconnect broker_raises s) a limit = [] \<and>
   (truthy a \<and> key_in a (data_buffer s) \<noteq> Inr True \<longrightarrow> get_latest_data s a = ByType Map.empty) \<and>
   (key_in a (data_buffer s) \<noteq> Inr True \<longrightarrow> get_buffer_data s a limit = [])"
proof -
  have 1: "sensor_data (disconnect broker_raises s) = Map.empty"
    by (simp add: disconnect_def)
  have 2: "dom (data_buffer (disconnect broker_raises s)) = dom (data_buffer s)"
    by (auto simp: disconnect_def dom_def)
  have 3: "\<forall>t \<in> dom (data_buffer s). data_buffer (disconnect broker_raises s) t = Some []"
    by (auto simp: disconnect_def)
  have 4: "get_latest_data (disconnect broker_raises s) a
     = (if truthy a then ByType Map.empty else AllTypes Map.empty)"
    by (auto simp: get_latest_data_def disconnect_def split: sum.splits bool.splits pyval.splits)
  have 5: "get_buffer_data (disconnect broker_raises s) a limit = []"
    by (auto simp: get_buffer_data_def disconnect_def key_in_def Let_def
        split: sum.splits bool.splits pyval.splits option.splits)
  have 6: "truthy a \<and> key_in a (data_buffer s) \<noteq> Inr True \<longrightarrow> get_latest_data s a = ByType Map.empty"
    by (auto simp: get_latest_data_def split: sum.splits bool.splits)
  have 7: "key_in a (data_buffer s) \<noteq> Inr True \<longrightarrow> get_buffer_data s a limit = []"
    by (auto simp: get_buffer_data_def split: sum.splits bool.splits)
  from 1 2 3 4 5 6 7 show ?thesis by blast
qed

text \<open>A manager holding one reading, disconnected while the broker client raises.\<close>

theorem disconnect_clears_readers_empty_witness:
  "get_buffer_data (store_reading example_manager ''temperature'' ''s1'' example_payload)
     (VStr ''temperature'') VNone = [example_payload] \<and>
   sensor_data (disconnect True
     (store_reading example_manager ''temperature'' ''s1'' example_payload)) = Map.empty \<and>
   data_buffer (disconnect True
     (store_reading example_manager ''temperature'' ''s1'' example_payload)) ''temperature''
     = Some [] \<and>
   get_latest_data (disconnect True
     (store_reading example_manager ''temperature'' ''s1'' example_payload)) (VStr ''pressure'')
     = ByType Map.empty \<and>
   get_buffer_data (disconnect True
     (store_reading example_manager ''temperature'' ''s1'' example_payload)) (VStr ''pressure'')
     (VInt 3) = [] \<and>
   get_latest_data (store_reading example_manager ''temperature'' ''s1'' example_payload)
     (VStr ''pressure'') = ByType Map.empty \<and>
   get_buffer_data (store_reading example_manager ''temperature'' ''s1'' example_payload)
     (VStr ''pressure'') (VInt 3) = []"
proof -
  have k: "key_in (VStr ''pressure'')
      (data_buffer (store_reading example_manager ''temperature'' ''s1'' example_payload))
      \<noteq> Inr True"
    by (simp add: key_in_def store_reading_def example_manager_def init_def)
  have t: "truthy (VStr ''pressure'')" by (simp add: truthy_def)
  have d: "''temperature'' \<in>
      dom (data_buffer (store_reading example_manager ''temperature'' ''s1'' example_payload))"
    by (simp add: store_reading_def example_manager_def init_def)
  have b: "get_buffer_data (store_reading example_manager ''temperature'' ''s1'' example_payload)
     (VStr ''temperature'') VNone = [example_payload]"
    by (simp add: get_buffer_data_def key_in_def store_reading_def example_manager_def init_def
        buffer_append_def)
  from disconnect_clears_readers_empty[of True
      "store_reading example_manager ''temperature'' ''s1'' example_payload"
      "VStr ''pressure''" "VInt 3"] k t d b
  show ?thesis by auto
qed

end
